theory Spec2Isabelle
  imports Main "HOL-Library.Sublist"
begin

section \<open>Values exchanged with the outside world\<close>

text \<open>
  The parsed body of an HTTP response and every kernel message is a JSON value; Python
  holds an object as a \<open>dict\<close>, modelled as an association list read with \<open>map_of\<close>.
\<close>

datatype json =
    JNull
  | JBool bool
  | JNum int
  | JStr string
  | JArr "json list"
  | JObj "(string \<times> json) list"

text \<open>
  Formatted text. An f-string, a \<open>print\<close> argument and the content written to a file are
  kept as the list of their pieces, so that the text says which value was formatted into
  it without fixing how Python spells a \<open>dict\<close>: \<open>Fmt j\<close> is \<open>str(j)\<close>, \<open>FmtInt n\<close>
  is \<open>str(n)\<close>, \<open>Secs d\<close> is the \<open>str\<close> of a duration of \<open>d\<close> milliseconds and
  \<open>Dump j\<close> is what \<open>json.dump(j, f)\<close> writes.
\<close>

datatype piece = Lit string | Fmt json | FmtInt int | Secs nat | Dump json

type_synonym fstring = "piece list"

text \<open>Every way the script can raise. \<open>Exception\<close> carries its message.\<close>

datatype error =
    KeyError string
  | TypeError
  | Exception fstring
  | AssertionError
  | TimeoutError
  | ClientError
  | JSONDecodeError
  | ChannelError
  | OSError

text \<open>What one \<open>GET /api/status\<close> comes to: a response with its status code, or an exception.\<close>

datatype probe = Resp int | Raised

record response =
  status :: int
  json_body :: "error + json"

text \<open>The background task \<open>t\<close> of \<open>execute_cmd_in_jupyter\<close>.\<close>

datatype task = NotCreated | Pending | Finished | Cancelled

datatype child = NotStarted | Running | Reaped

text \<open>
  The state the script changes: the files it writes, the lines it prints, a clock in
  milliseconds, the number of status requests sent, the sleeps performed (requested
  milliseconds, in order), the iopub messages taken from the channel, the background
  task and the child process.
\<close>

record world =
  files :: "string \<rightharpoonup> fstring"
  stdout :: "fstring list"
  clock :: nat
  gets :: nat
  slept :: "nat list"
  iopub_taken :: "json list"
  drain :: task
  server :: child

text \<open>
  What the outside world answers. \<open>probe i\<close> is the outcome of the \<open>i\<close>-th status
  request and \<open>get_ms i\<close> the time it takes; \<open>oversleep k\<close> is how much longer than
  asked the \<open>k\<close>-th sleep lasts; \<open>listing\<close> holds the file names of the runtime
  directory; \<open>recv_reply msg_id timeout\<close> is what \<open>client._recv_reply\<close> comes to, the
  correlated reply or \<open>TimeoutError\<close>; \<open>iopub\<close> holds the iopub messages that arrive
  while that reply is awaited, and \<open>wait_ms\<close> is how long the wait lasts.
\<close>

record env =
  home :: string
  probe :: "nat \<Rightarrow> probe"
  get_ms :: "nat \<Rightarrow> nat"
  oversleep :: "nat \<Rightarrow> nat"
  post_sessions :: "error + response"
  listing :: "string list"
  open_channels :: "string \<Rightarrow> error option"
  client_execute :: "string \<Rightarrow> string"
  recv_reply :: "string \<Rightarrow> nat \<Rightarrow> error + json"
  iopub :: "json list"
  wait_ms :: nat
  popen :: "error option"

section \<open>Library operations the script relies on\<close>

text \<open>\<open>d[k]\<close> with a string key: only a \<open>dict\<close> can be indexed by a string.\<close>

fun py_getitem :: "json \<Rightarrow> string \<Rightarrow> error + json" where
  "py_getitem (JObj kvs) k = (case map_of kvs k of None \<Rightarrow> Inl (KeyError k) | Some v \<Rightarrow> Inr v)"
| "py_getitem _ k = Inl TypeError"

text \<open>\<open>d[k1][k2]\<close>: the outer lookup first, its failure before the inner one.\<close>

definition py_getitem2 :: "json \<Rightarrow> string \<Rightarrow> string \<Rightarrow> error + json" where
  "py_getitem2 d k1 k2 = (case py_getitem d k1 of Inl err \<Rightarrow> Inl err | Inr v \<Rightarrow> py_getitem v k2)"

text \<open>\<open>os.path.join\<close> of two components on POSIX.\<close>

definition path_join :: "string \<Rightarrow> string \<Rightarrow> string" where
  "path_join a b =
     (if prefix ''/'' b then b
      else if a = [] \<or> suffix ''/'' a then a @ b
      else a @ ''/'' @ b)"

definition py_print :: "fstring \<Rightarrow> world \<Rightarrow> world" where
  "py_print line w = w\<lparr>stdout := stdout w @ [line]\<rparr>"

text \<open>\<open>asyncio.sleep\<close>: the clock moves on by at least the time asked for.\<close>

definition asyncio_sleep :: "env \<Rightarrow> nat \<Rightarrow> world \<Rightarrow> world" where
  "asyncio_sleep e ms w =
     w\<lparr>clock := clock w + ms + oversleep e (length (slept w)), slept := slept w @ [ms]\<rparr>"

text \<open>\<open>s.get(url)\<close>: the next status request.\<close>

definition http_get :: "env \<Rightarrow> world \<Rightarrow> probe \<times> world" where
  "http_get e w =
     (probe e (gets w), w\<lparr>clock := clock w + get_ms e (gets w), gets := gets w + 1\<rparr>)"

text \<open>
  \<open>open(path, "w")\<close> creates or empties the file; \<open>f.write\<close> takes a \<open>str\<close> only.
  The failures of the operating system (a missing directory, a full disk) are left out.
\<close>

definition open_w :: "string \<Rightarrow> world \<Rightarrow> world" where
  "open_w path w = w\<lparr>files := (files w)(path \<mapsto> [])\<rparr>"

definition contents :: "world \<Rightarrow> string \<Rightarrow> fstring" where
  "contents w path = (case files w path of None \<Rightarrow> [] | Some t \<Rightarrow> t)"

definition f_write :: "string \<Rightarrow> json \<Rightarrow> world \<Rightarrow> (error + unit) \<times> world" where
  "f_write path v w =
     (case v of
        JStr s \<Rightarrow> (Inr (), w\<lparr>files := (files w)(path \<mapsto> contents w path @ [Lit s])\<rparr>)
      | _ \<Rightarrow> (Inl TypeError, w))"

definition json_dump :: "json \<Rightarrow> string \<Rightarrow> world \<Rightarrow> world" where
  "json_dump v path w = w\<lparr>files := (files w)(path \<mapsto> contents w path @ [Dump v])\<rparr>"

text \<open>
  \<open>glob.glob(os.path.join(runtime_dir, "kernel-*.json"))\<close>: the names of the directory
  that start with \<open>kernel-\<close> and go on to end with \<open>.json\<close>, each joined to the directory.
\<close>

definition fnmatch_kernel :: "string \<Rightarrow> bool" where
  "fnmatch_kernel name \<longleftrightarrow> prefix ''kernel-'' name \<and> suffix ''.json'' (drop 7 name)"

definition glob_kernel :: "string \<Rightarrow> string list \<Rightarrow> string list" where
  "glob_kernel dir names = map (path_join dir) (filter fnmatch_kernel names)"

section \<open>start_up.py\<close>

text \<open>The command sent to the kernel: a blank first line, then one import a line.\<close>

definition JUPYTER_CMD :: string where
  "JUPYTER_CMD =
     [CHR 0x0A] @ ''import matplotlib'' @ [CHR 0x0A] @ ''import numpy'' @ [CHR 0x0A] @
     ''import matplotlib.pyplot'' @ [CHR 0x0A] @ ''import pandas'' @ [CHR 0x0A] @
     ''import seaborn'' @ [CHR 0x0A] @ ''import sklearn'' @ [CHR 0x0A]"

subsection \<open>wait_for_server\<close>

text \<open>
  The \<open>while True\<close> loop, with its local \<open>counter\<close>. It leaves only through \<open>break\<close>, on
  a response whose status is 200; an exception and any other status count the attempt
  as failed, print the waiting line at every 20th failure and sleep 0.1 s. A server that
  never answers 200 keeps the loop running forever: the value \<open>None\<close>.
\<close>

partial_function (option) wait_loop :: "env \<Rightarrow> nat \<Rightarrow> world \<Rightarrow> world option" where
  "wait_loop e counter w =
     (case http_get e w of
        (Resp code, w1) \<Rightarrow>
          if code = 200 then Some w1
          else
            let counter' = counter + 1;
                w2 = (if counter' mod 20 = 0
                      then py_print [Lit ''Waiting for Jupyter Server to start...''] w1 else w1)
            in wait_loop e counter' (asyncio_sleep e 100 w2)
      | (Raised, w1) \<Rightarrow>
          let counter' = counter + 1;
              w2 = (if counter' mod 20 = 0
                    then py_print [Lit ''Waiting for Jupyter Server to start...''] w1 else w1)
          in wait_loop e counter' (asyncio_sleep e 100 w2))"

definition wait_for_server :: "env \<Rightarrow> world \<Rightarrow> world option" where
  "wait_for_server e w =
     (let start_time = clock w in
      case wait_loop e 0 w of
        None \<Rightarrow> None
      | Some w' \<Rightarrow>
          let end_time = clock w' in
          Some (py_print [Lit ''wait for jupyter server start take '',
                          Secs (end_time - start_time), Lit '' second''] w'))"

subsection \<open>create_session\<close>

definition kernel_id_path :: "string \<Rightarrow> string" where
  "kernel_id_path session_path = path_join (path_join session_path ''.jupyter'') ''kernel_id''"

definition session_info_path :: "string \<Rightarrow> string" where
  "session_info_path session_path = path_join (path_join session_path ''.jupyter'') ''.session_info''"

definition create_session :: "env \<Rightarrow> world \<Rightarrow> (error + json) \<times> world" where
  "create_session e w =
     (case post_sessions e of
        Inl err \<Rightarrow> (Inl err, w)
      | Inr resp \<Rightarrow>
     (case json_body resp of
        Inl err \<Rightarrow> (Inl err, w)
      | Inr session_info \<Rightarrow>
     let status_code = status resp in
     (case py_getitem2 session_info ''kernel'' ''id'' of
        Inl err \<Rightarrow> (Inl err, w)
      | Inr kernel_id \<Rightarrow>
     (case py_getitem2 session_info ''kernel'' ''execution_state'' of
        Inl err \<Rightarrow> (Inl err, w)
      | Inr exec_state \<Rightarrow>
     if exec_state \<noteq> JStr ''starting''
     then (Inl (Exception [Lit ''error creating kernel: '', Fmt session_info,
                           Lit '' '', FmtInt status_code]), w)
     else
       (case f_write (kernel_id_path (home e)) kernel_id (open_w (kernel_id_path (home e)) w) of
          (Inl err, w1) \<Rightarrow> (Inl err, w1)
        | (Inr _, w1) \<Rightarrow>
            (Inr session_info,
             json_dump session_info (session_info_path (home e))
               (open_w (session_info_path (home e)) w1)))))))"

subsection \<open>execute_cmd_in_jupyter\<close>

text \<open>
  The coroutine \<open>handle_iopub_msg\<close>: one \<open>get_iopub_msg\<close>, one \<open>print\<close>, and it is over.
  With no message on the channel it stays suspended in the receive.
\<close>

definition handle_iopub_msg :: "json list \<Rightarrow> world \<Rightarrow> world" where
  "handle_iopub_msg msgs w =
     (case msgs of
        [] \<Rightarrow> w
      | iopub_msg # _ \<Rightarrow>
          py_print [Lit ''recv iopub msg '', Fmt iopub_msg]
            (w\<lparr>iopub_taken := iopub_taken w @ [iopub_msg], drain := Finished\<rparr>))"

text \<open>\<open>t.cancel()\<close>: a task that is already done is left as it is.\<close>

definition t_cancel :: "world \<Rightarrow> world" where
  "t_cancel w = (if drain w = Pending then w\<lparr>drain := Cancelled\<rparr> else w)"

definition runtime_dir :: "string \<Rightarrow> string" where
  "runtime_dir session_path =
     path_join (path_join (path_join (path_join session_path ''.local'') ''share'') ''jupyter'') ''runtime''"

text \<open>Lines 67 to 69 and 71: the connection file is the only match of the pattern.\<close>

definition locate_connection_file :: "env \<Rightarrow> error + string" where
  "locate_connection_file e =
     (let connection_files = glob_kernel (runtime_dir (home e)) (listing e) in
      if length connection_files \<noteq> 1 then Inl AssertionError
      else Inr (connection_files ! 0))"

text \<open>
  The task created at line 83 runs while line 84 awaits the reply. When the wait raises,
  the exception leaves the function from line 84 and lines 86 to 88 are not run.
\<close>

definition execute_cmd_in_jupyter :: "env \<Rightarrow> json \<Rightarrow> string \<Rightarrow> world \<Rightarrow> (error + unit) \<times> world" where
  "execute_cmd_in_jupyter e session_info cmd w =
     (case locate_connection_file e of
        Inl err \<Rightarrow> (Inl err, w)
      | Inr connection_file \<Rightarrow>
     (case open_channels e connection_file of
        Some err \<Rightarrow> (Inl err, w)
      | None \<Rightarrow>
     let start_time = clock w;
         msg_id = client_execute e cmd;
         w1 = w\<lparr>drain := Pending\<rparr>;
         w2 = handle_iopub_msg (iopub e) w1;
         w3 = w2\<lparr>clock := clock w2 + wait_ms e\<rparr>
     in
     (case recv_reply e msg_id 60 of
        Inl err \<Rightarrow> (Inl err, w3)
      | Inr reply \<Rightarrow>
          let end_time = clock w3;
              w4 = py_print [Lit ''execute finished: '', Fmt reply, Lit '', elapsed '',
                             Secs (end_time - start_time), Lit '' seconds''] w3
          in (Inr (), t_cancel w4))))"

subsection \<open>main and the script body\<close>

definition main :: "env \<Rightarrow> world \<Rightarrow> ((error + unit) \<times> world) option" where
  "main e w =
     (case wait_for_server e w of
        None \<Rightarrow> None
      | Some w1 \<Rightarrow>
     (case create_session e w1 of
        (Inl err, w2) \<Rightarrow> Some (Inl err, w2)
      | (Inr session_info, w2) \<Rightarrow>
     (case execute_cmd_in_jupyter e session_info JUPYTER_CMD w2 of
        (Inl err, w3) \<Rightarrow> Some (Inl err, w3)
      | (Inr _, w3) \<Rightarrow> Some (Inr (), asyncio_sleep e 100000 w3))))"

text \<open>
  \<open>asyncio.run(main())\<close>: when \<open>main\<close> is over, by a return or by an exception, the
  event loop is shut down, and a task that is still pending then is cancelled by the loop.
\<close>

definition asyncio_run_main :: "env \<Rightarrow> world \<Rightarrow> ((error + unit) \<times> world) option" where
  "asyncio_run_main e w =
     (case main e w of
        None \<Rightarrow> None
      | Some (r, w1) \<Rightarrow> Some (r, t_cancel w1))"

text \<open>
  Lines 101 to 106: start the server, run \<open>main\<close>, wait for the server. An exception
  that leaves \<open>asyncio.run(main())\<close> ends the script before \<open>p.wait()\<close>.
\<close>

definition script :: "env \<Rightarrow> world \<Rightarrow> ((error + unit) \<times> world) option" where
  "script e w =
     (case popen e of
        Some err \<Rightarrow> Some (Inl err, w)
      | None \<Rightarrow>
     (case asyncio_run_main e (w\<lparr>server := Running\<rparr>) of
        None \<Rightarrow> None
      | Some (Inl err, w1) \<Rightarrow> Some (Inl err, w1)
      | Some (Inr _, w1) \<Rightarrow> Some (Inr (), w1\<lparr>server := Reaped\<rparr>)))"

section \<open>monitor.py\<close>

text \<open>
  The logger writes through one \<open>RotatingFileHandler\<close> on \<open>/root/metrics_log.json\<close>,
  created with \<open>maxBytes = MAX_MB * 1024 * 1024\<close> and \<open>backupCount = 2\<close>.
\<close>

definition MAX_MB :: nat where
  "MAX_MB = 200"

definition maxBytes :: nat where
  "maxBytes = MAX_MB * 1024 * 1024"

definition backupCount :: nat where
  "backupCount = 2"

text \<open>
  The log directory: the lines of the file being written, the backup files by the number
  of their suffix (\<open>.1\<close>, \<open>.2\<close>, ...), and how many times the handler has rolled over.
\<close>

record logdir =
  active :: "string list"
  backups :: "nat \<rightharpoonup> string list"
  rollovers :: nat

text \<open>Every record is written with a newline after it.\<close>

definition file_size :: "string list \<Rightarrow> nat" where
  "file_size lines = sum_list (map (\<lambda>l. length l + 1) lines)"

text \<open>
  The handler class belongs to the Python standard library (\<open>logging.handlers\<close>); its
  three methods are taken from there, as of CPython 3.11. \<open>shouldRollover\<close>: the record,
  with its newline, would bring the file to \<open>maxBytes\<close> or beyond.
\<close>

definition shouldRollover :: "nat \<Rightarrow> string \<Rightarrow> logdir \<Rightarrow> bool" where
  "shouldRollover max_bytes record d \<longleftrightarrow>
     0 < max_bytes \<and> max_bytes \<le> file_size (active d) + (length record + 1)"

text \<open>
  \<open>doRollover\<close>: for \<open>i\<close> from \<open>backupCount - 1\<close> down to 1, the backup \<open>i\<close>, when it
  exists, replaces the backup \<open>i + 1\<close>; then the file itself becomes the backup 1 and a
  new empty file is opened. With no backup allowed the file is only reopened.
\<close>

fun shift_backups :: "nat \<Rightarrow> (nat \<rightharpoonup> string list) \<Rightarrow> (nat \<rightharpoonup> string list)" where
  "shift_backups 0 bk = bk"
| "shift_backups (Suc i) bk =
     shift_backups i
       (case bk (Suc i) of
          None \<Rightarrow> bk
        | Some c \<Rightarrow> (bk(Suc i := None))(Suc (Suc i) \<mapsto> c))"

definition doRollover :: "nat \<Rightarrow> logdir \<Rightarrow> logdir" where
  "doRollover backup_count d =
     (if 0 < backup_count
      then d\<lparr>active := [],
             backups := (shift_backups (backup_count - 1) (backups d))(1 \<mapsto> active d),
             rollovers := rollovers d + 1\<rparr>
      else d\<lparr>rollovers := rollovers d + 1\<rparr>)"

text \<open>\<open>emit\<close>: roll over first if the record asks for it, then write the record.\<close>

definition emit :: "nat \<Rightarrow> nat \<Rightarrow> string \<Rightarrow> logdir \<Rightarrow> logdir" where
  "emit max_bytes backup_count record d =
     (let d1 = (if shouldRollover max_bytes record d then doRollover backup_count d else d)
      in d1\<lparr>active := active d1 @ [record]\<rparr>)"

text \<open>
  The loop of \<open>main\<close>, over the samples that \<open>collect_metrics\<close> gives, each already
  serialised by \<open>json.dumps\<close>: one \<open>logger.info\<close> per sample. The loop never ends by
  itself; the function runs its first iterations, as many as there are samples.
\<close>

fun monitor_main :: "string list \<Rightarrow> logdir \<Rightarrow> logdir" where
  "monitor_main [] d = d"
| "monitor_main (metrics # rest) d = monitor_main rest (emit maxBytes backupCount metrics d)"

section \<open>Sample inputs\<close>

text \<open>
  A server that answers 503 twice and then 200, a well-formed session whose kernel is
  \<open>abc123\<close>, one connection file among the names of the runtime directory, two iopub
  messages and a reply that arrives after 50 ms.
\<close>

definition session0 :: json where
  "session0 = JObj [(''id'', JStr ''s1''),
     (''kernel'', JObj [(''id'', JStr ''abc123''), (''execution_state'', JStr ''starting'')])]"

definition reply0 :: json where
  "reply0 = JObj [(''status'', JStr ''ok'')]"

definition env0 :: env where
  "env0 = \<lparr>home = ''/root'',
     probe = (\<lambda>i. if i < 2 then Resp 503 else Resp 200),
     get_ms = (\<lambda>i. 3),
     oversleep = (\<lambda>k. 1),
     post_sessions = Inr \<lparr>status = 201, json_body = Inr session0\<rparr>,
     listing = [''kernel-abc123.json'', ''jpserver-1.json''],
     open_channels = (\<lambda>p. None),
     client_execute = (\<lambda>c. ''m1''),
     recv_reply = (\<lambda>m t. Inr reply0),
     iopub = [JStr ''busy'', JStr ''idle''],
     wait_ms = 50,
     popen = None\<rparr>"

definition world0 :: world where
  "world0 = \<lparr>files = Map.empty, stdout = [], clock = 0, gets = 0, slept = [],
     iopub_taken = [], drain = NotCreated, server = NotStarted\<rparr>"

text \<open>A kernel that is already idle, in a response with and without \<open>kernel.id\<close>.\<close>

definition session_idle :: json where
  "session_idle = JObj [(''id'', JStr ''s1''),
     (''kernel'', JObj [(''id'', JStr ''abc123''), (''execution_state'', JStr ''idle'')])]"

definition session_noid :: json where
  "session_noid = JObj [(''id'', JStr ''s1''),
     (''kernel'', JObj [(''execution_state'', JStr ''idle'')])]"

definition env_session :: "json \<Rightarrow> env" where
  "env_session j = env0\<lparr>post_sessions := Inr \<lparr>status = 201, json_body = Inr j\<rparr>\<rparr>"

text \<open>A server that answers 200 at once.\<close>

definition env_up :: env where
  "env_up = env0\<lparr>probe := (\<lambda>i. Resp 200)\<rparr>"

text \<open>A runtime directory with the given names.\<close>

definition env_listing :: "string list \<Rightarrow> env" where
  "env_listing names = env0\<lparr>listing := names\<rparr>"

text \<open>A kernel that sends nothing: no iopub message, and no reply within the 60 s.\<close>

definition env_timeout :: env where
  "env_timeout = env0\<lparr>recv_reply := (\<lambda>m t. Inl TimeoutError), iopub := [], wait_ms := 60000\<rparr>"

text \<open>A kernel that replies without any iopub message before.\<close>

definition env_quiet :: env where
  "env_quiet = env0\<lparr>iopub := []\<rparr>"

text \<open>A new log directory, and three million samples of 77 bytes: 234 MB with the newlines.\<close>

definition log0 :: logdir where
  "log0 = \<lparr>active = [], backups = Map.empty, rollovers = 0\<rparr>"

definition sample0 :: string where
  \<open>sample0 = ''{"timestamp": 1720000000.5, "cpu": [1.0, 2.5], "memory": 40.1, "network": {}}''\<close>

definition big_samples :: "string list" where
  "big_samples = replicate 3000000 sample0"

section \<open>One failed attempt of the polling loop\<close>

text \<open>
  What an iteration that does not \<open>break\<close> does to the state: the request, the waiting
  line at every 20th failure, the sleep.
\<close>

definition failed_attempt :: "env \<Rightarrow> nat \<Rightarrow> world \<Rightarrow> world" where
  "failed_attempt e counter w =
     asyncio_sleep e 100
       (if (counter + 1) mod 20 = 0
        then py_print [Lit ''Waiting for Jupyter Server to start...''] (snd (http_get e w))
        else snd (http_get e w))"

section \<open>Session creation\<close>

lemma path_join_inj:
  "\<not> prefix ''/'' b \<Longrightarrow> \<not> prefix ''/'' c \<Longrightarrow> path_join a b = path_join a c \<longleftrightarrow> b = c"
  by (auto simp: path_join_def)

lemma paths_distinct: "kernel_id_path h \<noteq> session_info_path h"
  by (simp add: kernel_id_path_def session_info_path_def path_join_inj)

lemma post_env_session:
  "post_sessions (env_session j) = Inr \<lparr>status = 201, json_body = Inr j\<rparr>"
  by (simp add: env_session_def)

lemma home_env_session: "home (env_session j) = ''/root''"
  by (simp add: env_session_def env0_def)

lemma post_env0: "post_sessions env0 = Inr \<lparr>status = 201, json_body = Inr session0\<rparr>"
  by (simp add: env0_def)

lemma home_env0: "home env0 = ''/root''"
  by (simp add: env0_def)

lemma session0_fields:
  "py_getitem2 session0 ''kernel'' ''id'' = Inr (JStr ''abc123'')"
  "py_getitem2 session0 ''kernel'' ''execution_state'' = Inr (JStr ''starting'')"
  by (simp_all add: session0_def py_getitem2_def)

lemma session_idle_fields:
  "py_getitem2 session_idle ''kernel'' ''id'' = Inr (JStr ''abc123'')"
  "py_getitem2 session_idle ''kernel'' ''execution_state'' = Inr (JStr ''idle'')"
  by (simp_all add: session_idle_def py_getitem2_def)

lemma session_noid_fields:
  "py_getitem2 session_noid ''kernel'' ''id'' = Inl (KeyError ''id'')"
  "py_getitem2 session_noid ''kernel'' ''execution_state'' = Inr (JStr ''idle'')"
  by (simp_all add: session_noid_def py_getitem2_def)

text \<open>
  C4, as stated, fails: a response whose kernel is \<open>idle\<close> and carries no \<open>id\<close> is
  refused at line 55, by the lookup of \<open>id\<close>, before the state is looked at; the error
  is the \<open>KeyError\<close> of that key and holds neither the response body nor the status code.
\<close>

theorem create_session_noid_counterexample:
  "py_getitem2 session_noid ''kernel'' ''execution_state'' = Inr (JStr ''idle'') \<and>
   fst (create_session (env_session session_noid) world0) = Inl (KeyError ''id'')"
  by (simp add: create_session_def post_env_session session_noid_fields)

text \<open>
  C4, amended: a response whose kernel \<open>execution_state\<close> is present and is not
  \<open>"starting"\<close> always makes \<open>create_session\<close> fail, whatever its other fields are, and
  nothing is written. When the response carries \<open>kernel.id\<close> too, the failure is the
  exception of line 58, whose message holds the parsed response body and the status code;
  when \<open>kernel.id\<close> cannot be read, the failure is the error of that lookup.
\<close>

theorem create_session_wrong_state:
  assumes "post_sessions e = Inr resp" and "json_body resp = Inr session_info"
    and "py_getitem2 session_info ''kernel'' ''execution_state'' = Inr exec_state"
    and "exec_state \<noteq> JStr ''starting''"
  shows "(\<exists>err. create_session e w = (Inl err, w)) \<and>
         (\<forall>kernel_id. py_getitem2 session_info ''kernel'' ''id'' = Inr kernel_id \<longrightarrow>
            fst (create_session e w) =
              Inl (Exception [Lit ''error creating kernel: '', Fmt session_info,
                              Lit '' '', FmtInt (status resp)])) \<and>
         (\<forall>err. py_getitem2 session_info ''kernel'' ''id'' = Inl err \<longrightarrow>
            fst (create_session e w) = Inl err)"
  using assms
  by (auto simp: create_session_def split: sum.splits)

theorem create_session_wrong_state_witness:
  "create_session (env_session session_idle) world0 =
     (Inl (Exception [Lit ''error creating kernel: '', Fmt session_idle, Lit '' '', FmtInt 201]),
      world0) \<and>
   create_session (env_session session_noid) world0 = (Inl (KeyError ''id''), world0)"
proof -
  have b: "json_body \<lparr>status = 201, json_body = Inr j\<rparr> = Inr j" for j
    by simp
  have ne: "JStr ''idle'' \<noteq> JStr ''starting''"
    by simp
  show ?thesis
    using create_session_wrong_state
            [OF post_env_session b session_idle_fields(2) ne, of world0]
          create_session_wrong_state
            [OF post_env_session b session_noid_fields(2) ne, of world0]
    by (auto simp: session_idle_fields session_noid_fields)
qed

text \<open>
  The one failure that comes after a file has been opened: a kernel identifier that is
  not a string, in a response whose state is \<open>"starting"\<close>, is refused by \<open>f.write\<close>,
  with the kernel-id file already emptied.
\<close>

lemma create_session_write_error:
  assumes "post_sessions e = Inr resp" and "json_body resp = Inr session_info"
    and "py_getitem2 session_info ''kernel'' ''id'' = Inr kernel_id"
    and "\<forall>s. kernel_id \<noteq> JStr s"
    and "py_getitem2 session_info ''kernel'' ''execution_state'' = Inr (JStr ''starting'')"
  shows "create_session e w = (Inl TypeError, open_w (kernel_id_path (home e)) w)"
  using assms
  by (cases kernel_id) (simp_all add: create_session_def f_write_def)

text \<open>
  C8: a well-formed response whose kernel is \<open>"starting"\<close> makes \<open>create_session\<close> return
  the parsed response, with the kernel identifier as the content of the kernel-id file
  and the dump of the whole response as the content of the session-info file.
\<close>

theorem create_session_persists:
  assumes "post_sessions e = Inr resp" and "json_body resp = Inr session_info"
    and "py_getitem2 session_info ''kernel'' ''id'' = Inr (JStr kid)"
    and "py_getitem2 session_info ''kernel'' ''execution_state'' = Inr (JStr ''starting'')"
  shows "fst (create_session e w) = Inr session_info \<and>
         files (snd (create_session e w)) (kernel_id_path (home e)) = Some [Lit kid] \<and>
         files (snd (create_session e w)) (session_info_path (home e)) =
           Some [Dump session_info]"
  using assms paths_distinct [of "home e"]
  by (simp add: create_session_def f_write_def open_w_def json_dump_def contents_def)

theorem create_session_persists_witness:
  "fst (create_session env0 world0) = Inr session0 \<and>
   files (snd (create_session env0 world0)) ''/root/.jupyter/kernel_id'' =
     Some [Lit ''abc123''] \<and>
   files (snd (create_session env0 world0)) ''/root/.jupyter/.session_info'' =
     Some [Dump session0]"
proof -
  have b: "json_body \<lparr>status = 201, json_body = Inr session0\<rparr> = Inr session0"
    by simp
  show ?thesis
    using create_session_persists [OF post_env0 b session0_fields, of world0]
    by (simp add: home_env0 kernel_id_path_def session_info_path_def path_join_def
          suffix_to_prefix)
qed

text \<open>
  C10: when a kernel field of the response cannot be read, or the kernel state is not
  \<open>"starting"\<close>, \<open>create_session\<close> fails and the state it returns is the one it was
  given: no file has been opened.
\<close>

theorem create_session_error_leaves_files:
  assumes "post_sessions e = Inr resp" and "json_body resp = Inr session_info"
    and "(\<exists>err. py_getitem2 session_info ''kernel'' ''id'' = Inl err) \<or>
         py_getitem2 session_info ''kernel'' ''execution_state'' \<noteq> Inr (JStr ''starting'')"
  shows "\<exists>err. create_session e w = (Inl err, w)"
  using assms
  by (auto simp: create_session_def split: sum.splits)

theorem create_session_error_leaves_files_witness:
  "(\<exists>err. create_session (env_session session_noid) world0 = (Inl err, world0)) \<and>
   (\<exists>err. create_session (env_session session_idle) world0 = (Inl err, world0))"
proof -
  have b: "json_body \<lparr>status = 201, json_body = Inr j\<rparr> = Inr j" for j
    by simp
  have noid: "(\<exists>err. py_getitem2 session_noid ''kernel'' ''id'' = Inl err) \<or>
      py_getitem2 session_noid ''kernel'' ''execution_state'' \<noteq> Inr (JStr ''starting'')"
    by (simp add: session_noid_fields)
  have idle: "(\<exists>err. py_getitem2 session_idle ''kernel'' ''id'' = Inl err) \<or>
      py_getitem2 session_idle ''kernel'' ''execution_state'' \<noteq> Inr (JStr ''starting'')"
    by (simp add: session_idle_fields)
  show ?thesis
    using create_session_error_leaves_files [OF post_env_session b noid, of world0]
          create_session_error_leaves_files [OF post_env_session b idle, of world0]
    by simp
qed

section \<open>Readiness polling\<close>

lemma wait_loop_success:
  "probe e (gets w) = Resp 200 \<Longrightarrow> wait_loop e counter w = Some (snd (http_get e w))"
  by (subst wait_loop.simps) (simp add: http_get_def)

lemma wait_loop_failure:
  "probe e (gets w) \<noteq> Resp 200 \<Longrightarrow>
   wait_loop e counter w = wait_loop e (counter + 1) (failed_attempt e counter w)"
  by (subst wait_loop.simps)
     (auto simp: http_get_def failed_attempt_def Let_def split: probe.splits)

lemma failed_attempt_fields:
  "gets (failed_attempt e counter w) = gets w + 1"
  "slept (failed_attempt e counter w) = slept w @ [100]"
  "clock w + 100 \<le> clock (failed_attempt e counter w)"
  "files (failed_attempt e counter w) = files w"
  "server (failed_attempt e counter w) = server w"
  "drain (failed_attempt e counter w) = drain w"
  by (simp_all add: failed_attempt_def asyncio_sleep_def py_print_def http_get_def)

text \<open>After \<open>n\<close> failed attempts and a success, the loop has ended: it does return.\<close>

lemma wait_loop_first_success:
  assumes "probe e (gets w + n) = Resp 200"
    and "\<forall>i<n. probe e (gets w + i) \<noteq> Resp 200"
  shows "\<exists>w'. wait_loop e counter w = Some w' \<and> gets w' = gets w + n + 1 \<and>
           slept w' = slept w @ replicate n 100 \<and> clock w + n * 100 \<le> clock w'"
  using assms
proof (induction n arbitrary: w counter)
  case 0
  then show ?case
    by (simp add: wait_loop_success http_get_def)
next
  case (Suc n)
  let ?w1 = "failed_attempt e counter w"
  from Suc.prems have first: "probe e (gets w) \<noteq> Resp 200"
    by (metis add.right_neutral zero_less_Suc)
  have "probe e (gets ?w1 + n) = Resp 200"
    using Suc.prems(1) by (simp add: failed_attempt_fields)
  moreover have "\<forall>i<n. probe e (gets ?w1 + i) \<noteq> Resp 200"
  proof (intro allI impI)
    fix i assume "i < n"
    then have "Suc i < Suc n" by simp
    with Suc.prems(2) have "probe e (gets w + Suc i) \<noteq> Resp 200" by blast
    then show "probe e (gets ?w1 + i) \<noteq> Resp 200"
      by (simp add: failed_attempt_fields)
  qed
  ultimately obtain w' where w': "wait_loop e (counter + 1) ?w1 = Some w'"
    "gets w' = gets ?w1 + n + 1" "slept w' = slept ?w1 @ replicate n 100"
    "clock ?w1 + n * 100 \<le> clock w'"
    using Suc.IH [of ?w1 "counter + 1"] by blast
  have "clock w + 100 \<le> clock ?w1"
    by (rule failed_attempt_fields)
  then have "clock w + Suc n * 100 \<le> clock w'"
    using w'(4) by simp
  with w'(1-3) show ?case
    by (simp add: wait_loop_failure [OF first] failed_attempt_fields)
qed

text \<open>
  Whenever the loop returns, it has sent a request, and two of them when the first was
  not answered by 200; it has touched neither the files, nor the task, nor the child.
\<close>

lemma wait_loop_progress:
  assumes "wait_loop e counter w = Some w'"
  shows "gets w < gets w' \<and> (probe e (gets w) \<noteq> Resp 200 \<longrightarrow> gets w + 2 \<le> gets w') \<and>
     server w' = server w \<and> files w' = files w \<and> drain w' = drain w"
proof (rule wait_loop.raw_induct [where P = "\<lambda>e counter w w'. gets w < gets w' \<and>
     (probe e (gets w) \<noteq> Resp 200 \<longrightarrow> gets w + 2 \<le> gets w') \<and>
     server w' = server w \<and> files w' = files w \<and> drain w' = drain w", OF _ assms])
  fix wl :: "env \<Rightarrow> nat \<Rightarrow> world \<Rightarrow> world option"
    and e :: env and counter :: nat and w w' :: world
  assume IH: "\<And>e counter w w'. wl e counter w = Some w' \<Longrightarrow> gets w < gets w' \<and>
     (probe e (gets w) \<noteq> Resp 200 \<longrightarrow> gets w + 2 \<le> gets w') \<and>
     server w' = server w \<and> files w' = files w \<and> drain w' = drain w"
  assume step: "(case http_get e w of
        (Resp code, w1) \<Rightarrow>
          if code = 200 then Some w1
          else
            let counter' = counter + 1;
                w2 = (if counter' mod 20 = 0
                      then py_print [Lit ''Waiting for Jupyter Server to start...''] w1 else w1)
            in wl e counter' (asyncio_sleep e 100 w2)
      | (Raised, w1) \<Rightarrow>
          let counter' = counter + 1;
              w2 = (if counter' mod 20 = 0
                    then py_print [Lit ''Waiting for Jupyter Server to start...''] w1 else w1)
          in wl e counter' (asyncio_sleep e 100 w2)) = Some w'"
  show "gets w < gets w' \<and> (probe e (gets w) \<noteq> Resp 200 \<longrightarrow> gets w + 2 \<le> gets w') \<and>
     server w' = server w \<and> files w' = files w \<and> drain w' = drain w"
  proof (cases "probe e (gets w) = Resp 200")
    case True
    with step show ?thesis
      by (auto simp: http_get_def)
  next
    case False
    with step have "wl e (counter + 1) (failed_attempt e counter w) = Some w'"
      by (auto simp: http_get_def failed_attempt_def Let_def split: probe.splits if_splits)
    from IH [OF this] show ?thesis
      by (simp add: failed_attempt_fields)
  qed
qed

lemma wait_for_server_Some:
  "wait_for_server e w = Some w' \<Longrightarrow>
   \<exists>w1. wait_loop e 0 w = Some w1 \<and>
      w' = py_print [Lit ''wait for jupyter server start take '',
                     Secs (clock w1 - clock w), Lit '' second''] w1"
  by (auto simp: wait_for_server_def Let_def split: option.splits)

lemma py_print_fields:
  "gets (py_print l w) = gets w" "slept (py_print l w) = slept w"
  "files (py_print l w) = files w" "server (py_print l w) = server w"
  "drain (py_print l w) = drain w" "last (stdout (py_print l w)) = l"
  "clock (py_print l w) = clock w" "iopub_taken (py_print l w) = iopub_taken w"
  by (simp_all add: py_print_def)

text \<open>
  C5, as stated, fails: the first answer of this server is a response, with status 503,
  and \<open>wait_for_server\<close> goes on polling; it returns after three requests.
\<close>

theorem wait_for_server_503_counterexample:
  "probe env0 (gets world0) = Resp 503 \<and>
   map_option gets (wait_for_server env0 world0) = Some 3"
  by (simp add: wait_for_server_def wait_loop.simps env0_def world0_def http_get_def
        asyncio_sleep_def py_print_def)

text \<open>
  C5, amended: a probe ends the polling loop exactly when it is answered by a response
  whose status code is 200. On such a response \<open>wait_for_server\<close> returns after that one
  request, without a sleep; on any other outcome of the first request (an exception, or
  a response with another status code) it does not return before a second request.
\<close>

theorem wait_for_server_ready_on_200:
  "(probe e (gets w) = Resp 200 \<longrightarrow>
      (\<exists>w'. wait_for_server e w = Some w' \<and> gets w' = gets w + 1 \<and> slept w' = slept w)) \<and>
   (probe e (gets w) \<noteq> Resp 200 \<longrightarrow>
      (\<forall>w'. wait_for_server e w = Some w' \<longrightarrow> gets w + 2 \<le> gets w'))"
proof (intro conjI impI allI)
  assume "probe e (gets w) = Resp 200"
  then show "\<exists>w'. wait_for_server e w = Some w' \<and> gets w' = gets w + 1 \<and> slept w' = slept w"
    by (simp add: wait_for_server_def wait_loop_success py_print_fields http_get_def)
next
  fix w'
  assume ne: "probe e (gets w) \<noteq> Resp 200" and ret: "wait_for_server e w = Some w'"
  from wait_for_server_Some [OF ret] obtain w1 where
    w1: "wait_loop e 0 w = Some w1" and "gets w' = gets w1"
    by (auto simp: py_print_fields)
  with wait_loop_progress [OF w1] ne show "gets w + 2 \<le> gets w'"
    by simp
qed

theorem wait_for_server_ready_on_200_witness:
  "probe env_up (gets world0) = Resp 200 \<and>
   (\<exists>w'. wait_for_server env_up world0 = Some w' \<and> gets w' = 1 \<and> slept w' = []) \<and>
   probe env0 (gets world0) \<noteq> Resp 200 \<and>
   (\<exists>w'. wait_for_server env0 world0 = Some w' \<and> 2 \<le> gets w')"
proof -
  have up: "probe env_up (gets world0) = Resp 200"
    by (simp add: env_up_def)
  have down: "probe env0 (gets world0) \<noteq> Resp 200"
    by (simp add: env0_def world0_def)
  have ret: "wait_for_server env0 world0 \<noteq> None"
    by (simp add: wait_for_server_def wait_loop.simps env0_def world0_def http_get_def
          asyncio_sleep_def py_print_def)
  show ?thesis
    using wait_for_server_ready_on_200 [of env_up world0]
          wait_for_server_ready_on_200 [of env0 world0] up down ret
    by (auto simp: world0_def)
qed

text \<open>
  C7: when the \<open>N\<close>-th request is the first one answered by 200, \<open>wait_for_server\<close>
  returns, it has sent exactly \<open>N\<close> requests and slept \<open>N - 1\<close> times, 100 ms each
  (once after every failed attempt, not after the last), and the duration it prints is
  at least \<open>(N - 1) * 100\<close> ms.
\<close>

theorem wait_for_server_attempts:
  assumes "1 \<le> N" and "probe e (gets w + (N - 1)) = Resp 200"
    and "\<forall>i<N - 1. probe e (gets w + i) \<noteq> Resp 200"
  shows "\<exists>w' d. wait_for_server e w = Some w' \<and> gets w' = gets w + N \<and>
           slept w' = slept w @ replicate (N - 1) 100 \<and>
           last (stdout w') =
             [Lit ''wait for jupyter server start take '', Secs d, Lit '' second''] \<and>
           (N - 1) * 100 \<le> d"
proof -
  from wait_loop_first_success [OF assms(2,3), of 0] obtain w1 where
    w1: "wait_loop e 0 w = Some w1" "gets w1 = gets w + (N - 1) + 1"
      "slept w1 = slept w @ replicate (N - 1) 100" "clock w + (N - 1) * 100 \<le> clock w1"
    by blast
  let ?d = "clock w1 - clock w"
  let ?w' = "py_print [Lit ''wait for jupyter server start take '', Secs ?d, Lit '' second''] w1"
  have "wait_for_server e w = Some ?w'"
    by (simp add: wait_for_server_def w1(1))
  moreover have "gets ?w' = gets w + N"
    using w1(2) assms(1) by (simp add: py_print_fields)
  moreover have "slept ?w' = slept w @ replicate (N - 1) 100"
    using w1(3) by (simp add: py_print_fields)
  moreover have "last (stdout ?w') =
      [Lit ''wait for jupyter server start take '', Secs ?d, Lit '' second'']"
    by (simp add: py_print_fields)
  moreover have "(N - 1) * 100 \<le> ?d"
    using w1(4) by simp
  ultimately show ?thesis
    by blast
qed

theorem wait_for_server_attempts_witness:
  "\<exists>w' d. wait_for_server env0 world0 = Some w' \<and> gets w' = 3 \<and> slept w' = [100, 100] \<and>
     last (stdout w') = [Lit ''wait for jupyter server start take '', Secs d, Lit '' second''] \<and>
     200 \<le> d"
proof -
  have a: "(1::nat) \<le> 3"
    by simp
  have b: "probe env0 (gets world0 + (3 - 1)) = Resp 200"
    by (simp add: env0_def world0_def)
  have c: "\<forall>i<3 - 1. probe env0 (gets world0 + i) \<noteq> Resp 200"
    by (simp add: env0_def world0_def)
  have g: "gets world0 = 0" "slept world0 = []"
    by (simp_all add: world0_def)
  have r: "replicate 2 (100::nat) = [100, 100]"
    by (simp add: numeral_2_eq_2)
  show ?thesis
    using wait_for_server_attempts [OF a b c]
    by (simp add: g r)
qed

section \<open>Connection discovery\<close>

text \<open>
  C6: with no name of the runtime directory matching \<open>kernel-*.json\<close> the discovery
  fails, with exactly one it returns the path of that file, with two or more it fails.
\<close>

theorem locate_connection_file_counts:
  "(filter fnmatch_kernel (listing e) = [] \<longrightarrow>
      locate_connection_file e = Inl AssertionError) \<and>
   (\<forall>name. filter fnmatch_kernel (listing e) = [name] \<longrightarrow>
      locate_connection_file e = Inr (path_join (runtime_dir (home e)) name)) \<and>
   (2 \<le> length (filter fnmatch_kernel (listing e)) \<longrightarrow>
      locate_connection_file e = Inl AssertionError)"
  by (simp add: locate_connection_file_def glob_kernel_def)

lemma fnmatch_kernel_samples:
  "fnmatch_kernel ''kernel-abc123.json''" "fnmatch_kernel ''kernel-a.json''"
  "fnmatch_kernel ''kernel-b.json''" "fnmatch_kernel ''kernel-c.json''"
  "fnmatch_kernel ''kernel-d.json''" "fnmatch_kernel ''kernel-e.json''"
  "\<not> fnmatch_kernel ''jpserver-1.json''" "\<not> fnmatch_kernel ''kernel-a.txt''"
  by (simp_all add: fnmatch_kernel_def suffix_to_prefix)

lemma runtime_dir_root: "runtime_dir ''/root'' = ''/root/.local/share/jupyter/runtime''"
  by (simp add: runtime_dir_def path_join_def suffix_to_prefix)

theorem locate_connection_file_counts_witness:
  "locate_connection_file (env_listing [''jpserver-1.json'', ''kernel-a.txt'']) =
     Inl AssertionError \<and>
   locate_connection_file (env_listing [''kernel-abc123.json'', ''jpserver-1.json'']) =
     Inr ''/root/.local/share/jupyter/runtime/kernel-abc123.json'' \<and>
   locate_connection_file (env_listing [''kernel-a.json'', ''kernel-b.json'']) =
     Inl AssertionError \<and>
   locate_connection_file (env_listing [''kernel-a.json'', ''kernel-b.json'',
       ''jpserver-1.json'', ''kernel-c.json'', ''kernel-d.json'', ''kernel-e.json'']) =
     Inl AssertionError"
proof -
  have l: "listing (env_listing names) = names" "home (env_listing names) = ''/root''"
    for names
    by (simp_all add: env_listing_def env0_def)
  show ?thesis
    using locate_connection_file_counts [of "env_listing [''jpserver-1.json'', ''kernel-a.txt'']"]
      locate_connection_file_counts [of "env_listing [''kernel-abc123.json'', ''jpserver-1.json'']"]
      locate_connection_file_counts [of "env_listing [''kernel-a.json'', ''kernel-b.json'']"]
      locate_connection_file_counts [of "env_listing [''kernel-a.json'', ''kernel-b.json'',
        ''jpserver-1.json'', ''kernel-c.json'', ''kernel-d.json'', ''kernel-e.json'']"]
    by (simp add: l fnmatch_kernel_samples runtime_dir_root path_join_def suffix_to_prefix)
qed

section \<open>Executing the command\<close>

lemma execute_fields:
  "server (snd (execute_cmd_in_jupyter e session_info cmd w)) = server w"
  "slept (snd (execute_cmd_in_jupyter e session_info cmd w)) = slept w"
  "files (snd (execute_cmd_in_jupyter e session_info cmd w)) = files w"
  by (simp_all add: execute_cmd_in_jupyter_def handle_iopub_msg_def t_cancel_def py_print_def
        Let_def split: sum.splits option.splits list.splits)

text \<open>
  When the wait for the reply raises, the exception is what the function ends with, and
  the task is never cancelled: it has finished by itself if an iopub message came, and
  is still waiting for one otherwise.
\<close>

lemma execute_raises:
  assumes "locate_connection_file e = Inr connection_file"
    and "open_channels e connection_file = None"
    and "recv_reply e (client_execute e cmd) 60 = Inl err"
  shows "fst (execute_cmd_in_jupyter e session_info cmd w) = Inl err \<and>
         drain (snd (execute_cmd_in_jupyter e session_info cmd w)) =
           (if iopub e = [] then Pending else Finished)"
  using assms
  by (simp add: execute_cmd_in_jupyter_def handle_iopub_msg_def py_print_def Let_def
        split: list.splits)

lemma execute_returns:
  assumes "locate_connection_file e = Inr connection_file"
    and "open_channels e connection_file = None"
    and "recv_reply e (client_execute e cmd) 60 = Inr reply"
  shows "fst (execute_cmd_in_jupyter e session_info cmd w) = Inr ()"
  using assms
  by (simp add: execute_cmd_in_jupyter_def Let_def)

lemma locate_env0:
  "locate_connection_file env0 = Inr ''/root/.local/share/jupyter/runtime/kernel-abc123.json''"
  by (simp add: locate_connection_file_def glob_kernel_def env0_def fnmatch_kernel_samples
        runtime_dir_root path_join_def suffix_to_prefix)

lemma locate_env_timeout: "locate_connection_file env_timeout = locate_connection_file env0"
  by (simp add: locate_connection_file_def env_timeout_def)

lemma locate_env_quiet: "locate_connection_file env_quiet = locate_connection_file env0"
  by (simp add: locate_connection_file_def env_quiet_def)

text \<open>
  C1 at the failing input: no reply within the 60 s and no iopub message. The function
  ends with \<open>TimeoutError\<close> raised from line 84; \<open>t.cancel()\<close> at line 88 has not run, and
  the task is left waiting for a message, not cancelled.
\<close>

theorem execute_timeout_leaves_task_pending:
  "fst (execute_cmd_in_jupyter env_timeout session0 JUPYTER_CMD world0) = Inl TimeoutError \<and>
   drain (snd (execute_cmd_in_jupyter env_timeout session0 JUPYTER_CMD world0)) = Pending"
  by (simp add: execute_cmd_in_jupyter_def locate_env_timeout locate_env0)
     (simp add: env_timeout_def env0_def world0_def handle_iopub_msg_def Let_def)

text \<open>
  C3, as stated, fails: two iopub messages arrive before the reply; the task takes the
  first one and is finished, by itself, with the second never received.
\<close>

theorem drain_takes_one_counterexample:
  "iopub env0 = [JStr ''busy'', JStr ''idle''] \<and>
   iopub_taken (snd (execute_cmd_in_jupyter env0 session0 JUPYTER_CMD world0)) = [JStr ''busy''] \<and>
   drain (snd (execute_cmd_in_jupyter env0 session0 JUPYTER_CMD world0)) = Finished"
  by (simp add: execute_cmd_in_jupyter_def locate_env0)
     (simp add: env0_def world0_def handle_iopub_msg_def t_cancel_def py_print_def Let_def)

text \<open>
  C3, amended: the task makes one receive. It takes the first iopub message that arrives
  before the reply, if there is one, prints it and ends by itself; only when no message
  arrived is it still waiting at the reply, and is cancelled then. The function returns
  normally and the reply it prints is the one received, whatever the iopub messages are.
\<close>

theorem drain_takes_at_most_one:
  assumes "locate_connection_file e = Inr connection_file"
    and "open_channels e connection_file = None"
    and "recv_reply e (client_execute e cmd) 60 = Inr reply"
  shows "fst (execute_cmd_in_jupyter e session_info cmd w) = Inr () \<and>
         iopub_taken (snd (execute_cmd_in_jupyter e session_info cmd w)) =
           iopub_taken w @ take 1 (iopub e) \<and>
         drain (snd (execute_cmd_in_jupyter e session_info cmd w)) =
           (if iopub e = [] then Cancelled else Finished) \<and>
         last (stdout (snd (execute_cmd_in_jupyter e session_info cmd w))) =
           [Lit ''execute finished: '', Fmt reply, Lit '', elapsed '',
            Secs (wait_ms e), Lit '' seconds'']"
  using assms
  by (simp add: execute_cmd_in_jupyter_def handle_iopub_msg_def t_cancel_def py_print_def
        Let_def split: list.splits)

theorem drain_takes_at_most_one_witness:
  "fst (execute_cmd_in_jupyter env0 session0 JUPYTER_CMD world0) = Inr () \<and>
   iopub_taken (snd (execute_cmd_in_jupyter env0 session0 JUPYTER_CMD world0)) = [JStr ''busy''] \<and>
   drain (snd (execute_cmd_in_jupyter env0 session0 JUPYTER_CMD world0)) = Finished \<and>
   last (stdout (snd (execute_cmd_in_jupyter env0 session0 JUPYTER_CMD world0))) =
     [Lit ''execute finished: '', Fmt reply0, Lit '', elapsed '', Secs 50, Lit '' seconds''] \<and>
   fst (execute_cmd_in_jupyter env_quiet session0 JUPYTER_CMD world0) = Inr () \<and>
   iopub_taken (snd (execute_cmd_in_jupyter env_quiet session0 JUPYTER_CMD world0)) = [] \<and>
   drain (snd (execute_cmd_in_jupyter env_quiet session0 JUPYTER_CMD world0)) = Cancelled \<and>
   last (stdout (snd (execute_cmd_in_jupyter env_quiet session0 JUPYTER_CMD world0))) =
     [Lit ''execute finished: '', Fmt reply0, Lit '', elapsed '', Secs 50, Lit '' seconds'']"
proof -
  have c0: "open_channels env0 ''/root/.local/share/jupyter/runtime/kernel-abc123.json'' = None"
    by (simp add: env0_def)
  have r0: "recv_reply env0 (client_execute env0 JUPYTER_CMD) 60 = Inr reply0"
    by (simp add: env0_def)
  have cq: "open_channels env_quiet ''/root/.local/share/jupyter/runtime/kernel-abc123.json'' = None"
    by (simp add: env_quiet_def env0_def)
  have rq: "recv_reply env_quiet (client_execute env_quiet JUPYTER_CMD) 60 = Inr reply0"
    by (simp add: env_quiet_def env0_def)
  have lq: "locate_connection_file env_quiet =
      Inr ''/root/.local/share/jupyter/runtime/kernel-abc123.json''"
    by (simp add: locate_env_quiet locate_env0)
  have v: "iopub env0 = [JStr ''busy'', JStr ''idle'']" "iopub env_quiet = []"
    "wait_ms env0 = 50" "wait_ms env_quiet = 50" "iopub_taken world0 = []"
    by (simp_all add: env_quiet_def env0_def world0_def)
  show ?thesis
    using drain_takes_at_most_one [OF locate_env0 c0 r0, of session0 world0]
          drain_takes_at_most_one [OF lq cq rq, of session0 world0]
    by (simp add: v)
qed

section \<open>The whole script\<close>

lemma create_session_fields:
  "server (snd (create_session e w)) = server w"
  "slept (snd (create_session e w)) = slept w"
  by (simp_all add: create_session_def f_write_def open_w_def json_dump_def Let_def
        split: sum.splits json.splits)

lemma create_session_returns:
  assumes "post_sessions e = Inr resp" and "json_body resp = Inr session_info"
    and "py_getitem2 session_info ''kernel'' ''id'' = Inr (JStr kid)"
    and "py_getitem2 session_info ''kernel'' ''execution_state'' = Inr (JStr ''starting'')"
  shows "fst (create_session e w) = Inr session_info"
  using assms
  by (simp add: create_session_def f_write_def)

lemma wait_for_server_fields:
  assumes "wait_for_server e w = Some w'"
  shows "server w' = server w"
proof -
  from wait_for_server_Some [OF assms] obtain w1 where
    "wait_loop e 0 w = Some w1" and "server w' = server w1"
    by (auto simp: py_print_fields)
  with wait_loop_progress [of e 0 w w1] show ?thesis
    by simp
qed

text \<open>
  C2, as stated, fails: the server comes up, the session is created, the connection
  file is found, and no reply arrives in 60 s. The script ends with \<open>TimeoutError\<close>; its
  only sleeps are the two of the polling loop, and the child has not been waited for.
\<close>

theorem script_timeout_counterexample:
  "map_option fst (script env_timeout world0) = Some (Inl TimeoutError) \<and>
   map_option (slept \<circ> snd) (script env_timeout world0) = Some [100, 100] \<and>
   map_option (server \<circ> snd) (script env_timeout world0) = Some Running"
  by (simp add: script_def asyncio_run_main_def main_def t_cancel_def wait_for_server_def
        wait_loop.simps create_session_def
        execute_cmd_in_jupyter_def locate_connection_file_def glob_kernel_def
        fnmatch_kernel_def runtime_dir_def path_join_def suffix_to_prefix
        env_timeout_def env0_def world0_def http_get_def asyncio_sleep_def py_print_def
        py_getitem2_def session0_def f_write_def open_w_def json_dump_def contents_def
        handle_iopub_msg_def Let_def)

text \<open>
  C2, amended: once the server is up, the session created and the channels open, a
  pre-warm execution that ends in \<open>TimeoutError\<close> ends the script with that error: the
  exception is not caught, there is no hold-open sleep and the child is not waited for.
  Only when the reply arrives does the script go on to the hold-open sleep of 100 s and
  then wait for the child.
\<close>

theorem script_prewarm_outcome:
  assumes "popen e = None"
    and "wait_for_server e (w\<lparr>server := Running\<rparr>) = Some w1"
    and "create_session e w1 = (Inr session_info, w2)"
    and "locate_connection_file e = Inr connection_file"
    and "open_channels e connection_file = None"
  shows "(recv_reply e (client_execute e JUPYTER_CMD) 60 = Inl TimeoutError \<longrightarrow>
            (\<exists>w'. script e w = Some (Inl TimeoutError, w') \<and>
                  server w' = Running \<and> slept w' = slept w1)) \<and>
         (\<forall>reply. recv_reply e (client_execute e JUPYTER_CMD) 60 = Inr reply \<longrightarrow>
            (\<exists>w'. script e w = Some (Inr (), w') \<and>
                  server w' = Reaped \<and> slept w' = slept w1 @ [100000]))"
proof (intro conjI impI allI)
  let ?r = "execute_cmd_in_jupyter e session_info JUPYTER_CMD w2"
  have s1: "server w1 = Running"
    using wait_for_server_fields [OF assms(2)] by simp
  have w2: "server w2 = Running" "slept w2 = slept w1"
    using create_session_fields [of e w1] s1 by (simp_all add: assms(3))
  {
    assume "recv_reply e (client_execute e JUPYTER_CMD) 60 = Inl TimeoutError"
    from execute_raises [OF assms(4,5) this, of session_info w2]
    obtain w3 where r: "?r = (Inl TimeoutError, w3)"
      by (metis prod.collapse)
    have "script e w = Some (Inl TimeoutError, t_cancel w3)"
      by (simp add: script_def asyncio_run_main_def main_def assms(1,2,3) r)
    moreover have "server (t_cancel w3) = Running" "slept (t_cancel w3) = slept w1"
      using execute_fields(1,2) [of e session_info JUPYTER_CMD w2]
      by (simp_all add: r w2 t_cancel_def)
    ultimately show "\<exists>w'. script e w = Some (Inl TimeoutError, w') \<and>
        server w' = Running \<and> slept w' = slept w1"
      by simp
  }
  {
    fix reply
    assume "recv_reply e (client_execute e JUPYTER_CMD) 60 = Inr reply"
    from execute_returns [OF assms(4,5) this, of session_info w2]
    obtain w3 where r: "?r = (Inr (), w3)"
      by (metis prod.collapse)
    have "script e w =
        Some (Inr (), (t_cancel (asyncio_sleep e 100000 w3))\<lparr>server := Reaped\<rparr>)"
      by (simp add: script_def asyncio_run_main_def main_def assms(1,2,3) r)
    moreover have "slept w3 = slept w1"
      using execute_fields(2) [of e session_info JUPYTER_CMD w2] by (simp add: r w2)
    ultimately show "\<exists>w'. script e w = Some (Inr (), w') \<and>
        server w' = Reaped \<and> slept w' = slept w1 @ [100000]"
      by (simp add: asyncio_sleep_def t_cancel_def)
  }
qed

theorem script_prewarm_outcome_witness:
  "(\<exists>w'. script env_timeout world0 = Some (Inl TimeoutError, w') \<and>
       server w' = Running \<and> slept w' = [100, 100]) \<and>
   (\<exists>w'. script env0 world0 = Some (Inr (), w') \<and>
       server w' = Reaped \<and> slept w' = [100, 100, 100000])"
proof -
  let ?cf = "''/root/.local/share/jupyter/runtime/kernel-abc123.json''"
  have b: "json_body \<lparr>status = 201, json_body = Inr session0\<rparr> = Inr session0"
    by simp
  have "\<exists>w1. wait_for_server env_timeout (world0\<lparr>server := Running\<rparr>) = Some w1 \<and>
      slept w1 = [100, 100]"
    by (simp add: wait_for_server_def wait_loop.simps env_timeout_def env0_def world0_def
          http_get_def asyncio_sleep_def py_print_def)
  then obtain t1 where t1: "wait_for_server env_timeout (world0\<lparr>server := Running\<rparr>) = Some t1"
    "slept t1 = [100, 100]"
    by blast
  have "post_sessions env_timeout = Inr \<lparr>status = 201, json_body = Inr session0\<rparr>"
    by (simp add: env_timeout_def env0_def)
  from create_session_returns [OF this b session0_fields, of t1]
  obtain t2 where t2: "create_session env_timeout t1 = (Inr session0, t2)"
    by (metis prod.collapse)
  have tl: "locate_connection_file env_timeout = Inr ?cf"
    by (simp add: locate_env_timeout locate_env0)
  have tc: "open_channels env_timeout ?cf = None" "popen env_timeout = None"
    "recv_reply env_timeout (client_execute env_timeout JUPYTER_CMD) 60 = Inl TimeoutError"
    by (simp_all add: env_timeout_def env0_def)
  have "\<exists>w1. wait_for_server env0 (world0\<lparr>server := Running\<rparr>) = Some w1 \<and>
      slept w1 = [100, 100]"
    by (simp add: wait_for_server_def wait_loop.simps env0_def world0_def
          http_get_def asyncio_sleep_def py_print_def)
  then obtain u1 where u1: "wait_for_server env0 (world0\<lparr>server := Running\<rparr>) = Some u1"
    "slept u1 = [100, 100]"
    by blast
  from create_session_returns [OF post_env0 b session0_fields, of u1]
  obtain u2 where u2: "create_session env0 u1 = (Inr session0, u2)"
    by (metis prod.collapse)
  have uc: "open_channels env0 ?cf = None" "popen env0 = None"
    "recv_reply env0 (client_execute env0 JUPYTER_CMD) 60 = Inr reply0"
    by (simp_all add: env0_def)
  show ?thesis
    using script_prewarm_outcome [OF tc(2) t1(1) t2 tl tc(1)]
          script_prewarm_outcome [OF uc(2) u1(1) u2 locate_env0 uc(1)]
    by (simp add: tc(3) uc(3) t1(2) u1(2))
qed

section \<open>The rotating metrics log\<close>

lemma shift_backups_dom:
  "i < n \<Longrightarrow> dom bk \<subseteq> {1..n} \<Longrightarrow> dom (shift_backups i bk) \<subseteq> {1..n}"
proof (induction i arbitrary: bk)
  case 0
  then show ?case by simp
next
  case (Suc i)
  have "dom (case bk (Suc i) of None \<Rightarrow> bk | Some c \<Rightarrow> (bk(Suc i := None))(Suc (Suc i) \<mapsto> c)) \<subseteq> {1..n}"
    using Suc.prems by (auto split: option.splits)
  with Suc show ?case by simp
qed

lemma doRollover_dom:
  "dom (backups d) \<subseteq> {1..backup_count} \<Longrightarrow> dom (backups (doRollover backup_count d)) \<subseteq> {1..backup_count}"
  using shift_backups_dom [of "backup_count - 1" backup_count "backups d"]
  by (auto simp: doRollover_def)

lemma emit_dom:
  "dom (backups d) \<subseteq> {1..backup_count} \<Longrightarrow> dom (backups (emit max_bytes backup_count record d)) \<subseteq> {1..backup_count}"
  using doRollover_dom [of d backup_count]
  by (simp add: emit_def Let_def)

lemma monitor_main_dom:
  "dom (backups d) \<subseteq> {1..backupCount} \<Longrightarrow> dom (backups (monitor_main samples d)) \<subseteq> {1..backupCount}"
proof (induction samples arbitrary: d)
  case Nil
  then show ?case by simp
next
  case (Cons m ms)
  from Cons.prems have "dom (backups (emit maxBytes backupCount m d)) \<subseteq> {1..backupCount}"
    by (rule emit_dom)
  then have "dom (backups (monitor_main ms (emit maxBytes backupCount m d))) \<subseteq> {1..backupCount}"
    by (rule Cons.IH)
  then show ?case by simp
qed

lemma bounded_dom_card: "dom (bk :: nat \<rightharpoonup> 'a) \<subseteq> {1..n} \<Longrightarrow> card (dom bk) \<le> n"
  using card_mono [of "{1..n}" "dom bk"] by simp

lemma emit_rollovers:
  "rollovers (emit max_bytes backup_count record d) =
     (if shouldRollover max_bytes record d then rollovers d + 1 else rollovers d)"
  by (simp add: emit_def doRollover_def Let_def)

lemma emit_rolled_first:
  "0 < backup_count \<Longrightarrow> shouldRollover max_bytes record d \<Longrightarrow> backups (emit max_bytes backup_count record d) 1 = Some (active d)"
  by (simp add: emit_def doRollover_def Let_def)

lemma emit_keeps_first:
  "backups d 1 \<noteq> None \<Longrightarrow> 0 < backup_count \<Longrightarrow> backups (emit max_bytes backup_count record d) 1 \<noteq> None"
  by (simp add: emit_def doRollover_def Let_def)

lemma emit_no_rollover:
  "\<not> shouldRollover max_bytes record d \<Longrightarrow> emit max_bytes backup_count record d = d\<lparr>active := active d @ [record]\<rparr>"
  by (simp add: emit_def)

lemma monitor_main_rollovers_mono: "rollovers d \<le> rollovers (monitor_main samples d)"
proof (induction samples arbitrary: d)
  case Nil
  then show ?case by simp
next
  case (Cons m ms)
  have "rollovers d \<le> rollovers (emit maxBytes backupCount m d)"
    by (simp add: emit_rollovers)
  also have "\<dots> \<le> rollovers (monitor_main ms (emit maxBytes backupCount m d))"
    by (rule Cons.IH)
  finally show ?case by simp
qed

lemma backupCount_pos: "0 < backupCount"
  by (simp add: backupCount_def)

lemma monitor_main_first_kept:
  "backups d 1 \<noteq> None \<Longrightarrow> backups (monitor_main samples d) 1 \<noteq> None"
proof (induction samples arbitrary: d)
  case Nil
  then show ?case by simp
next
  case (Cons m ms)
  from Cons.prems backupCount_pos
  have "backups (emit maxBytes backupCount m d) 1 \<noteq> None"
    by (rule emit_keeps_first)
  then have "backups (monitor_main ms (emit maxBytes backupCount m d)) 1 \<noteq> None"
    by (rule Cons.IH)
  then show ?case by simp
qed

lemma file_size_append: "file_size (xs @ ys) = file_size xs + file_size ys"
  by (simp add: file_size_def)

lemma no_rollover_below_cap:
  "samples \<noteq> [] \<Longrightarrow> rollovers (monitor_main samples d) = rollovers d \<Longrightarrow>
   file_size (active d) + file_size samples < maxBytes"
proof (induction samples arbitrary: d)
  case Nil
  then show ?case by simp
next
  case (Cons m ms)
  let ?d1 = "emit maxBytes backupCount m d"
  have mono: "rollovers ?d1 \<le> rollovers (monitor_main ms ?d1)"
    by (rule monitor_main_rollovers_mono)
  have stay: "\<not> shouldRollover maxBytes m d"
  proof
    assume "shouldRollover maxBytes m d"
    then have "rollovers ?d1 = rollovers d + 1"
      by (simp add: emit_rollovers)
    with mono Cons.prems(2) show False by simp
  qed
  then have d1: "?d1 = d\<lparr>active := active d @ [m]\<rparr>"
    by (rule emit_no_rollover)
  have pos: "0 < maxBytes"
    by (simp add: maxBytes_def MAX_MB_def)
  show ?case
  proof (cases ms)
    case Nil
    with stay pos show ?thesis
      by (simp add: shouldRollover_def file_size_def)
  next
    case (Cons a as)
    then have "ms \<noteq> []" by simp
    moreover have "rollovers (monitor_main ms ?d1) = rollovers ?d1"
      using Cons.prems(2) by (simp add: d1)
    ultimately have "file_size (active ?d1) + file_size ms < maxBytes"
      by (rule Cons.IH)
    then show ?thesis
      by (simp add: d1 file_size_def)
  qed
qed

lemma rolled_first_exists:
  "rollovers d < rollovers (monitor_main samples d) \<Longrightarrow> backups (monitor_main samples d) 1 \<noteq> None"
proof (induction samples arbitrary: d)
  case Nil
  then show ?case by simp
next
  case (Cons m ms)
  let ?d1 = "emit maxBytes backupCount m d"
  show ?case
  proof (cases "shouldRollover maxBytes m d")
    case True
    with backupCount_pos have "backups ?d1 1 = Some (active d)"
      by (rule emit_rolled_first)
    then have "backups ?d1 1 \<noteq> None"
      by simp
    then have "backups (monitor_main ms ?d1) 1 \<noteq> None"
      by (rule monitor_main_first_kept)
    then show ?thesis
      by simp
  next
    case False
    then have "rollovers ?d1 = rollovers d"
      by (simp add: emit_rollovers)
    with Cons.prems have "rollovers ?d1 < rollovers (monitor_main ms ?d1)"
      by simp
    then show ?thesis
      using Cons.IH by simp
  qed
qed

lemma file_size_replicate: "file_size (replicate n l) = n * (length l + 1)"
  by (induction n) (simp_all add: file_size_def)

text \<open>
  C9: starting from a directory whose backups are among \<open>.1\<close> and \<open>.2\<close>, after every
  number of samples written at most two backup files exist; and when the samples written
  come to more than \<open>maxBytes\<close> in all, the handler has rolled the log over, and the
  backup \<open>.1\<close> exists.
\<close>

theorem metrics_log_rotation:
  assumes "dom (backups d) \<subseteq> {1..backupCount}"
  shows "(\<forall>n. card (dom (backups (monitor_main (take n samples) d))) \<le> backupCount) \<and>
         (maxBytes < file_size samples \<longrightarrow>
            rollovers d < rollovers (monitor_main samples d) \<and>
            backups (monitor_main samples d) 1 \<noteq> None)"
proof (intro conjI allI impI)
  fix n
  show "card (dom (backups (monitor_main (take n samples) d))) \<le> backupCount"
    using monitor_main_dom [OF assms] by (rule bounded_dom_card)
next
  assume big: "maxBytes < file_size samples"
  then have ne: "samples \<noteq> []"
    by (auto simp: file_size_def)
  show r: "rollovers d < rollovers (monitor_main samples d)"
  proof (rule ccontr)
    assume "\<not> rollovers d < rollovers (monitor_main samples d)"
    with monitor_main_rollovers_mono [of d samples]
    have "rollovers (monitor_main samples d) = rollovers d"
      by simp
    from no_rollover_below_cap [OF ne this] big show False
      by simp
  qed
  then show "backups (monitor_main samples d) 1 \<noteq> None"
    by (rule rolled_first_exists)
qed


theorem metrics_log_rotation_witness:
  "maxBytes < file_size big_samples \<and>
   card (dom (backups (monitor_main big_samples log0))) \<le> 2 \<and>
   rollovers log0 < rollovers (monitor_main big_samples log0) \<and>
   backups (monitor_main big_samples log0) 1 \<noteq> None"
proof -
  have h: "dom (backups log0) \<subseteq> {1..backupCount}"
    by (simp add: log0_def)
  have big: "maxBytes < file_size big_samples"
    by (simp add: big_samples_def file_size_replicate sample0_def maxBytes_def MAX_MB_def)
  have all: "take (length big_samples) big_samples = big_samples"
    by (rule take_all) simp
  from metrics_log_rotation [OF h, of big_samples]
  have "card (dom (backups (monitor_main (take (length big_samples) big_samples) log0)))
          \<le> backupCount"
    and "rollovers log0 < rollovers (monitor_main big_samples log0)"
    and "backups (monitor_main big_samples log0) 1 \<noteq> None"
    using big by blast+
  then show ?thesis
    using big by (simp only: all backupCount_def) simp
qed

end
